theory Spec2Isabelle
  imports Complex_Main "HOL-Library.AList"
begin

section \<open>Values shared by the services\<close>

text \<open>
  Identifiers are uuid strings. A JavaScript \<open>number\<close> is modelled as an exact rational
  or \<open>NaN\<close>: the arithmetic of the services is \<open>+\<close>, \<open>*\<close> and a division by the
  literal 100, and \<open>NaN\<close> is what a multiplication makes of \<open>undefined\<close>. Rounding of
  doubles and the infinities are left out. Dates are milliseconds since the epoch.
\<close>

type_synonym uuid = string

datatype jsnum = Fin rat | NaN

fun js_add :: "jsnum \<Rightarrow> jsnum \<Rightarrow> jsnum" where
  "js_add (Fin a) (Fin b) = Fin (a + b)"
| "js_add _ _ = NaN"

fun js_mul :: "jsnum \<Rightarrow> jsnum \<Rightarrow> jsnum" where
  "js_mul (Fin a) (Fin b) = Fin (a * b)"
| "js_mul _ _ = NaN"

text \<open>Every division in the services has the literal 100 as divisor; a zero divisor
  (an infinity or \<open>NaN\<close> in JavaScript) is never reached and is mapped to \<open>NaN\<close>.\<close>

fun js_div :: "jsnum \<Rightarrow> jsnum \<Rightarrow> jsnum" where
  "js_div (Fin a) (Fin b) = (if b = 0 then NaN else Fin (a / b))"
| "js_div _ _ = NaN"

text \<open>The comparison \<open><=\<close> of JavaScript: false as soon as one side is \<open>NaN\<close>.\<close>

fun js_le :: "jsnum \<Rightarrow> jsnum \<Rightarrow> bool" where
  "js_le (Fin a) (Fin b) = (a \<le> b)"
| "js_le _ _ = False"

text \<open>Truthiness of an optional string (\<open>undefined\<close>, \<open>null\<close> and \<open>""\<close> are falsy) and of
  an optional number (\<open>undefined\<close>, \<open>0\<close> and \<open>NaN\<close> are falsy).\<close>

definition truthy :: "string option \<Rightarrow> bool" where
  "truthy s = (case s of None \<Rightarrow> False | Some x \<Rightarrow> x \<noteq> [])"

definition truthy_num :: "jsnum option \<Rightarrow> bool" where
  "truthy_num n = (case n of None \<Rightarrow> False | Some NaN \<Rightarrow> False | Some (Fin a) \<Rightarrow> a \<noteq> 0)"

definition truthy_nat :: "nat option \<Rightarrow> bool" where
  "truthy_nat n = (case n of None \<Rightarrow> False | Some d \<Rightarrow> d \<noteq> 0)"

text \<open>\<open>s || ""\<close>\<close>

definition or_empty :: "string option \<Rightarrow> string" where
  "or_empty s = (case s of None \<Rightarrow> [] | Some x \<Rightarrow> x)"

text \<open>Decimal rendering of a natural number, as a template literal renders an integer.\<close>

definition digit_char :: "nat \<Rightarrow> char" where
  "digit_char d = ''0123456789'' ! d"

fun show_nat :: "nat \<Rightarrow> string" where
  "show_nat n = (if n < 10 then [digit_char n] else show_nat (n div 10) @ [digit_char (n mod 10)])"

declare show_nat.simps [simp del]

datatype error = Error string

section \<open>Order entities (checkout module)\<close>

datatype ORDER_STATUS =
  PENDING | SELLER_NOTIFIED | SELLER_ACCEPTED | CONFIRMED | PROCESSING
  | SHIPPED | DELIVERED | CANCELLED | REFUNDED | RETURNED

fun status_string :: "ORDER_STATUS \<Rightarrow> string" where
  "status_string PENDING = ''pending''"
| "status_string SELLER_NOTIFIED = ''seller_notified''"
| "status_string SELLER_ACCEPTED = ''seller_accepted''"
| "status_string CONFIRMED = ''confirmed''"
| "status_string PROCESSING = ''processing''"
| "status_string SHIPPED = ''shipped''"
| "status_string DELIVERED = ''delivered''"
| "status_string CANCELLED = ''cancelled''"
| "status_string REFUNDED = ''refunded''"
| "status_string RETURNED = ''returned''"

datatype COMMISSION_STATUS = C_PENDING | C_CALCULATED | C_PAID | C_CANCELLED

datatype NOTIFICATION_TYPE = NEW_ORDER | ORDER_ACCEPTED | ORDER_STATUS_UPDATE | COMMISSION_EARNED

text \<open>The columns of each entity that the seller operations and the commission service
  read or write. The primary key of an order is the key of the \<open>orders\<close> table below.\<close>

record Order =
  o_orderNumber :: string
  o_status :: ORDER_STATUS
  o_totalAmount :: rat
  o_trackingNumber :: "string option"
  o_estimatedDeliveryDate :: "string option"
  o_notes :: "string option"

record Product =
  p_sellerId :: "uuid option"

text \<open>An order item as a query returns it, its \<open>product\<close> relation joined. The entity
  declares the columns \<open>unitPrice\<close> and \<open>totalPrice\<close>; it declares no \<open>price\<close>.\<close>

record OrderItem =
  oi_orderId :: uuid
  oi_productId :: uuid
  oi_quantity :: int
  oi_unitPrice :: rat
  oi_totalPrice :: rat
  oi_product :: "Product option"

record OrderStatusHistory =
  h_orderId :: uuid
  h_status :: ORDER_STATUS
  h_previousStatus :: ORDER_STATUS
  h_notes :: string
  h_notificationSent :: bool

record Commission =
  c_id :: uuid
  c_orderId :: uuid
  c_sellerId :: uuid
  c_orderAmount :: jsnum
  c_commissionRate :: jsnum
  c_commissionAmount :: jsnum
  c_status :: COMMISSION_STATUS
  c_notes :: string
  c_paidAt :: "int option"

record SellerNotification =
  n_sellerId :: uuid
  n_orderId :: uuid
  n_type :: NOTIFICATION_TYPE
  n_title :: string
  n_message :: string

text \<open>The ledger store behind the repositories of the checkout module. Orders are only
  ever fetched by primary key, so their table is a map; the other tables are scanned and
  appended to, so they are lists in insertion order. \<open>nextId\<close> numbers the rows the
  database creates, and \<open>console\<close> collects what \<open>console.error\<close> prints.\<close>

record store =
  orders :: "uuid \<rightharpoonup> Order"
  items :: "OrderItem list"
  statusHistory :: "OrderStatusHistory list"
  commissions :: "Commission list"
  notifications :: "SellerNotification list"
  nextId :: nat
  console :: "string list"


section \<open>CommissionService\<close>

text \<open>The binding \<open>COMMISSION_STATUS\<close> of the service. The service imports it from
  \<open>commission.entity\<close>; that module imports the enum from \<open>order.enums\<close> for its own
  column and exports only the class \<open>Commission\<close>. The imported binding is therefore
  \<open>undefined\<close>, and every read of one of its members throws a \<open>TypeError\<close>.\<close>

fun member_name :: "COMMISSION_STATUS \<Rightarrow> string" where
  "member_name C_PENDING = ''PENDING''"
| "member_name C_CALCULATED = ''CALCULATED''"
| "member_name C_PAID = ''PAID''"
| "member_name C_CANCELLED = ''CANCELLED''"

definition COMMISSION_STATUS_member :: "COMMISSION_STATUS \<Rightarrow> error + COMMISSION_STATUS" where
  "COMMISSION_STATUS_member member =
     Inl (Error (''TypeError: Cannot read properties of undefined (reading '' @
                 member_name member @ '')''))"

text \<open>\<open>getCommissionRate\<close> ignores the seller and returns the default 10.\<close>

definition getCommissionRate :: "uuid \<Rightarrow> jsnum" where
  "getCommissionRate sellerId = Fin 10"

text \<open>The read \<open>item.price\<close>. \<open>OrderItem\<close> has no such property (its columns are
  \<open>unitPrice\<close> and \<open>totalPrice\<close>), so the read gives \<open>undefined\<close>, and the
  multiplication that consumes it turns \<open>undefined\<close> into \<open>NaN\<close>.\<close>

definition oi_price :: "OrderItem \<Rightarrow> jsnum" where
  "oi_price item = NaN"

record commissionData =
  cd_amount :: jsnum
  cd_rate :: jsnum

text \<open>The first loop: \<open>sellerCommissions\<close> is a \<open>Map\<close>, which keeps its keys in
  insertion order; it is an association list updated in place.\<close>

fun groupBySeller :: "OrderItem list \<Rightarrow> (uuid \<times> commissionData) list \<Rightarrow> (uuid \<times> commissionData) list" where
  "groupBySeller [] sellerCommissions = sellerCommissions"
| "groupBySeller (item # rest) sellerCommissions =
     (case oi_product item of
        None \<Rightarrow> groupBySeller rest sellerCommissions
      | Some product \<Rightarrow>
          if \<not> truthy (p_sellerId product) then groupBySeller rest sellerCommissions
          else let
              sellerId = the (p_sellerId product);
              itemTotal = js_mul (Fin (of_int (oi_quantity item))) (oi_price item);
              commissionRate = getCommissionRate sellerId;
              commissionAmount = js_mul itemTotal (js_div commissionRate (Fin 100))
            in groupBySeller rest
                 (case map_of sellerCommissions sellerId of
                    Some existing \<Rightarrow> AList.update sellerId
                      (existing\<lparr>cd_amount := js_add (cd_amount existing) commissionAmount\<rparr>)
                      sellerCommissions
                  | None \<Rightarrow> AList.update sellerId
                      \<lparr>cd_amount = commissionAmount, cd_rate = commissionRate\<rparr>
                      sellerCommissions))"

declare groupBySeller.simps(2) [simp del]

text \<open>The second loop: one \<open>create\<close> and \<open>save\<close> per entry of the map. The argument
  of \<open>create\<close> reads \<open>COMMISSION_STATUS.CALCULATED\<close>, so building the first row throws
  before anything is saved. The uuid that the database gives a new row is the decimal of
  the store's counter.\<close>

fun saveCommissions ::
  "store \<Rightarrow> uuid \<Rightarrow> Order \<Rightarrow> (uuid \<times> commissionData) list \<Rightarrow> Commission list
     \<Rightarrow> error + Commission list \<times> store" where
  "saveCommissions st orderId order [] created = Inr (created, st)"
| "saveCommissions st orderId order ((sellerId, commissionData) # rest) created =
     (case COMMISSION_STATUS_member C_CALCULATED of
        Inl e \<Rightarrow> Inl e
      | Inr status \<Rightarrow>
          (let commission =
                 \<lparr>c_id = show_nat (nextId st), c_orderId = orderId, c_sellerId = sellerId,
                  c_orderAmount = Fin (o_totalAmount order),
                  c_commissionRate = cd_rate commissionData,
                  c_commissionAmount = cd_amount commissionData,
                  c_status = status,
                  c_notes = ''Commission calculated for order #'' @ o_orderNumber order,
                  c_paidAt = None\<rparr>;
               st' = st\<lparr>commissions := commissions st @ [commission],
                        nextId := Suc (nextId st)\<rparr>
           in saveCommissions st' orderId order rest (created @ [commission])))"

text \<open>\<open>order.items\<close>, the relation loaded with the order.\<close>

definition orderItems :: "store \<Rightarrow> uuid \<Rightarrow> OrderItem list" where
  "orderItems st orderId = filter (\<lambda>item. oi_orderId item = orderId) (items st)"

definition calculateAndCreateCommission :: "store \<Rightarrow> uuid \<Rightarrow> error + Commission list \<times> store" where
  "calculateAndCreateCommission st orderId =
     (case orders st orderId of
        None \<Rightarrow> Inl (Error ''Order not found'')
      | Some order \<Rightarrow>
          if o_status order \<noteq> DELIVERED
          then Inl (Error ''Commission can only be calculated for delivered orders'')
          else saveCommissions st orderId order
                 (groupBySeller (orderItems st orderId) []) [])"

text \<open>\<open>markCommissionAsPaid(commissionId)\<close>; \<open>now\<close> is \<open>new Date()\<close>. The assignment
  to \<open>commission.status\<close> reads \<open>COMMISSION_STATUS.PAID\<close> first.\<close>

definition markCommissionAsPaid :: "store \<Rightarrow> uuid \<Rightarrow> int \<Rightarrow> error + Commission \<times> store" where
  "markCommissionAsPaid st commissionId now =
     (case find (\<lambda>c. c_id c = commissionId) (commissions st) of
        None \<Rightarrow> Inl (Error ''Commission not found'')
      | Some commission \<Rightarrow>
          (case COMMISSION_STATUS_member C_PAID of
             Inl e \<Rightarrow> Inl e
           | Inr status \<Rightarrow>
               let commission' = commission\<lparr>c_status := status, c_paidAt := Some now\<rparr>
               in Inr (commission',
                       st\<lparr>commissions :=
                          map (\<lambda>c. if c_id c = commissionId then commission' else c)
                            (commissions st)\<rparr>)))"

record CommissionSummary =
  totalEarned :: jsnum
  totalPaid :: jsnum
  pendingAmount :: jsnum
  commissionCount :: nat

text \<open>\<open>rows.reduce((sum, c) => sum + Number(c.commissionAmount), 0)\<close>\<close>

definition sumAmounts :: "Commission list \<Rightarrow> jsnum" where
  "sumAmounts rows = foldl (\<lambda>sum c. js_add sum (c_commissionAmount c)) (Fin 0) rows"

text \<open>\<open>rows.filter(c => c.status === COMMISSION_STATUS.X)\<close>: the callback reads the
  member once for every row, so the filter throws as soon as there is a row.\<close>

fun filterStatus :: "COMMISSION_STATUS \<Rightarrow> Commission list \<Rightarrow> error + Commission list" where
  "filterStatus member [] = Inr []"
| "filterStatus member (c # rest) =
     (case COMMISSION_STATUS_member member of
        Inl e \<Rightarrow> Inl e
      | Inr status \<Rightarrow>
          (case filterStatus member rest of
             Inl e \<Rightarrow> Inl e
           | Inr kept \<Rightarrow> Inr (if c_status c = status then c # kept else kept)))"

definition getCommissionSummary :: "store \<Rightarrow> uuid \<Rightarrow> error + CommissionSummary" where
  "getCommissionSummary st sellerId =
     (let commissions = filter (\<lambda>c. c_sellerId c = sellerId) (commissions st);
          totalEarned = sumAmounts commissions
      in case filterStatus C_PAID commissions of
           Inl e \<Rightarrow> Inl e
         | Inr paid \<Rightarrow>
             (case filterStatus C_CALCULATED commissions of
                Inl e \<Rightarrow> Inl e
              | Inr calculated \<Rightarrow>
                  Inr \<lparr>totalEarned = totalEarned, totalPaid = sumAmounts paid,
                       pendingAmount = sumAmounts calculated,
                       commissionCount = length commissions\<rparr>))"

section \<open>SellerOrderController\<close>

text \<open>A response is either \<open>res.json(getResponseAPI("200", {order}))\<close> or
  \<open>res.status(code).json(getResponseAPI(code, {message}))\<close>.\<close>

datatype response = Json200 Order | Status nat string

text \<open>The transition table of \<open>isValidStatusTransition\<close>.\<close>

fun validTransitions :: "ORDER_STATUS \<Rightarrow> ORDER_STATUS list" where
  "validTransitions PENDING = [CANCELLED]"
| "validTransitions SELLER_NOTIFIED = [SELLER_ACCEPTED, CANCELLED]"
| "validTransitions SELLER_ACCEPTED = [CONFIRMED, CANCELLED]"
| "validTransitions CONFIRMED = [PROCESSING, CANCELLED]"
| "validTransitions PROCESSING = [SHIPPED, CANCELLED]"
| "validTransitions SHIPPED = [DELIVERED, CANCELLED]"
| "validTransitions DELIVERED = [RETURNED]"
| "validTransitions CANCELLED = []"
| "validTransitions REFUNDED = []"
| "validTransitions RETURNED = []"

definition isValidStatusTransition :: "ORDER_STATUS \<Rightarrow> ORDER_STATUS \<Rightarrow> bool" where
  "isValidStatusTransition currentStatus newStatus =
     List.member (validTransitions currentStatus) newStatus"

text \<open>\<open>orderItemRepository.find({ where: { orderId, product: { sellerId } } })\<close>\<close>

definition sellerOrderItems :: "store \<Rightarrow> uuid \<Rightarrow> uuid \<Rightarrow> OrderItem list" where
  "sellerOrderItems st orderId sellerId =
     filter (\<lambda>item. oi_orderId item = orderId \<and>
        (case oi_product item of None \<Rightarrow> False | Some p \<Rightarrow> p_sellerId p = Some sellerId))
       (items st)"

record SellerOrderAcceptDto =
  a_orderId :: uuid
  a_notes :: "string option"
  a_estimatedProcessingTime :: "nat option"

record SellerOrderUpdateDto =
  u_orderId :: uuid
  u_status :: ORDER_STATUS
  u_notes :: "string option"
  u_trackingNumber :: "string option"
  u_estimatedDeliveryDate :: "string option"

text \<open>\<open>SellerNotificationService.sendOrderAcceptedNotification\<close>\<close>

definition sendOrderAcceptedNotification :: "store \<Rightarrow> uuid \<Rightarrow> Order \<Rightarrow> uuid \<Rightarrow> store" where
  "sendOrderAcceptedNotification st orderId order sellerId =
     st\<lparr>notifications := notifications st @
        [\<lparr>n_sellerId = sellerId, n_orderId = orderId, n_type = ORDER_ACCEPTED,
          n_title = ''Order Accepted'',
          n_message = ''Order #'' @ o_orderNumber order @
             '' has been accepted and is now being processed.''\<rparr>]\<rparr>"

text \<open>\<open>acceptOrder\<close>: \<open>user\<close> is \<open>req.user?.id\<close>. The checks run in the order of the
  source: authentication, then the seller's items in the order, then the order itself,
  then its status. The repositories of this model do not throw, so the outer \<open>catch\<close>
  of the handlers (the answer 500) is never entered.\<close>

definition acceptOrder :: "store \<Rightarrow> uuid option \<Rightarrow> SellerOrderAcceptDto \<Rightarrow> response \<times> store" where
  "acceptOrder st user dto =
     (if \<not> truthy user then (Status 401 ''User not authenticated'', st)
      else let sellerId = the user; orderId = a_orderId dto in
        if sellerOrderItems st orderId sellerId = []
        then (Status 403 ''Access denied to this order'', st)
        else (case orders st orderId of
            None \<Rightarrow> (Status 404 ''Order not found'', st)
          | Some order \<Rightarrow>
              if o_status order \<noteq> SELLER_NOTIFIED
              then (Status 400 ''Order cannot be accepted in current status'', st)
              else let
                  order1 = order\<lparr>o_status := SELLER_ACCEPTED\<rparr>;
                  order2 =
                    (if truthy_nat (a_estimatedProcessingTime dto)
                     then order1\<lparr>o_notes := Some (''Estimated processing time: '' @
                            show_nat (the (a_estimatedProcessingTime dto)) @ '' days. '' @
                            or_empty (a_notes dto))\<rparr>
                     else if truthy (a_notes dto) then order1\<lparr>o_notes := a_notes dto\<rparr>
                     else order1);
                  st1 = st\<lparr>orders := (orders st)(orderId \<mapsto> order2)\<rparr>;
                  st2 = st1\<lparr>statusHistory := statusHistory st1 @
                     [\<lparr>h_orderId = orderId, h_status = SELLER_ACCEPTED,
                       h_previousStatus = SELLER_NOTIFIED,
                       h_notes = ''Order accepted by seller. '' @ or_empty (a_notes dto),
                       h_notificationSent = True\<rparr>]\<rparr>;
                  st3 = sendOrderAcceptedNotification st2 orderId order2 sellerId
                in (Json200 order2, st3)))"

text \<open>\<open>updateOrderStatus\<close>. The controller holds its commission service as a field;
  here it is the parameter \<open>commissionService\<close>, a computation on the store that
  returns normally or throws. A throw is caught and printed, and the handler goes on.\<close>

definition updateOrderStatus_with ::
  "(store \<Rightarrow> uuid \<Rightarrow> error + Commission list \<times> store) \<Rightarrow> store \<Rightarrow> uuid option
     \<Rightarrow> SellerOrderUpdateDto
     \<Rightarrow> response \<times> store" where
  "updateOrderStatus_with commissionService st user dto =
     (if \<not> truthy user then (Status 401 ''User not authenticated'', st)
      else let sellerId = the user; orderId = u_orderId dto; status = u_status dto in
        if sellerOrderItems st orderId sellerId = []
        then (Status 403 ''Access denied to this order'', st)
        else (case orders st orderId of
            None \<Rightarrow> (Status 404 ''Order not found'', st)
          | Some order \<Rightarrow>
              if \<not> isValidStatusTransition (o_status order) status
              then (Status 400 ''Invalid status transition'', st)
              else let
                  previousStatus = o_status order;
                  order1 = order\<lparr>o_status := status\<rparr>;
                  order2 = (if truthy (u_trackingNumber dto)
                            then order1\<lparr>o_trackingNumber := u_trackingNumber dto\<rparr> else order1);
                  order3 = (if truthy (u_estimatedDeliveryDate dto)
                            then order2\<lparr>o_estimatedDeliveryDate := u_estimatedDeliveryDate dto\<rparr>
                            else order2);
                  order4 = (if truthy (u_notes dto) then order3\<lparr>o_notes := u_notes dto\<rparr>
                            else order3);
                  st1 = st\<lparr>orders := (orders st)(orderId \<mapsto> order4)\<rparr>;
                  st2 = st1\<lparr>statusHistory := statusHistory st1 @
                     [\<lparr>h_orderId = orderId, h_status = status,
                       h_previousStatus = previousStatus,
                       h_notes = (if truthy (u_notes dto) then the (u_notes dto)
                                  else ''Status updated to '' @ status_string status),
                       h_notificationSent = True\<rparr>]\<rparr>;
                  st3 = (if status = DELIVERED
                         then (case commissionService st2 orderId of
                                 Inr (created, st') \<Rightarrow> st'
                               | Inl (Error msg) \<Rightarrow>
                                   st2\<lparr>console := console st2 @
                                      [''Failed to calculate commission: '' @ msg]\<rparr>)
                         else st2)
                in (Json200 order4, st3)))"




section \<open>ReferralService\<close>

datatype REFERRAL_TYPE = SELLER_ACCOUNT | PRODUCT

datatype REFERRAL_STATUS = R_PENDING | R_ACTIVE | R_COMPLETED | R_EXPIRED | R_CANCELLED

datatype REFERRAL_COMMISSION_STATUS = RC_PENDING | RC_EARNED | RC_PAID | RC_CANCELLED

record Referral =
  r_id :: uuid
  r_referrerId :: uuid
  r_referredId :: uuid
  r_type :: REFERRAL_TYPE
  r_status :: REFERRAL_STATUS
  r_referralCode :: "string option"
  r_productId :: "uuid option"
  r_sellerId :: "uuid option"
  r_commissionRate :: jsnum
  r_totalCommission :: jsnum
  r_expiresAt :: "int option"

record ReferralCommission =
  rcm_id :: uuid
  rcm_referralId :: uuid
  rcm_orderId :: uuid
  rcm_orderAmount :: jsnum
  rcm_commissionRate :: jsnum
  rcm_commissionAmount :: jsnum
  rcm_status :: REFERRAL_COMMISSION_STATUS

record ReferralCode =
  rc_id :: uuid
  rc_code :: string
  rc_type :: REFERRAL_TYPE
  rc_commissionRate :: jsnum
  rc_isActive :: bool
  rc_expiresAt :: "int option"
  rc_usageCount :: int
  rc_maxUsage :: "int option"

record Seller =
  s_totalRevenue :: jsnum

record CreateReferralDto =
  d_referrerId :: uuid
  d_referredId :: uuid
  d_type :: REFERRAL_TYPE
  d_referralCode :: string
  d_productId :: "uuid option"
  d_sellerId :: "uuid option"
  d_commissionRate :: "jsnum option"

text \<open>The tables behind the repositories of the referral service. Sellers are fetched
  by primary key only; the other tables are searched by column.\<close>

record referral_store =
  referralCodes :: "ReferralCode list"
  referrals :: "Referral list"
  referralCommissions :: "ReferralCommission list"
  sellers :: "uuid \<rightharpoonup> Seller"
  r_nextId :: nat

text \<open>\<open>repository.save\<close> of a loaded row: an update by primary key.\<close>

definition saveReferralCode :: "ReferralCode \<Rightarrow> ReferralCode list \<Rightarrow> ReferralCode list" where
  "saveReferralCode code rows = map (\<lambda>c. if rc_id c = rc_id code then code else c) rows"

definition saveReferral :: "Referral \<Rightarrow> Referral list \<Rightarrow> Referral list" where
  "saveReferral referral rows = map (\<lambda>r. if r_id r = r_id referral then referral else r) rows"

text \<open>\<open>createReferral\<close>; \<open>now\<close> is the \<open>new Date()\<close> of the expiry check and
  \<open>dateNow\<close> the later \<open>Date.now()\<close>. The spread \<open>...data\<close> comes first, so
  \<open>status\<close> and \<open>expiresAt\<close> are always the ones written here; \<open>totalCommission\<close>
  takes its column default 0.\<close>

definition createReferral ::
  "referral_store \<Rightarrow> CreateReferralDto \<Rightarrow> int \<Rightarrow> int \<Rightarrow> error + Referral \<times> referral_store" where
  "createReferral st data now dateNow =
     (case find (\<lambda>c. rc_code c = d_referralCode data \<and> rc_isActive c) (referralCodes st) of
        None \<Rightarrow> Inl (Error ''Invalid or inactive referral code'')
      | Some referralCode \<Rightarrow>
          if (case rc_expiresAt referralCode of None \<Rightarrow> False | Some e \<Rightarrow> e < now)
          then Inl (Error ''Referral code has expired'')
          else if (case rc_maxUsage referralCode of None \<Rightarrow> False
                   | Some m \<Rightarrow> m \<noteq> 0 \<and> m \<le> rc_usageCount referralCode)
          then Inl (Error ''Referral code usage limit reached'')
          else (case find (\<lambda>r. r_referredId r = d_referredId data \<and> r_type r = d_type data)
                       (referrals st) of
              Some existingReferral \<Rightarrow> Inl (Error ''User has already been referred for this type'')
            | None \<Rightarrow>
                let commissionRate =
                      (if \<not> truthy_num (d_commissionRate data) then rc_commissionRate referralCode
                       else the (d_commissionRate data));
                    referral =
                      \<lparr>r_id = show_nat (r_nextId st),
                       r_referrerId = d_referrerId data, r_referredId = d_referredId data,
                       r_type = d_type data, r_status = R_PENDING,
                       r_referralCode = Some (d_referralCode data),
                       r_productId = d_productId data, r_sellerId = d_sellerId data,
                       r_commissionRate = commissionRate, r_totalCommission = Fin 0,
                       r_expiresAt = Some (dateNow + 30 * 24 * 60 * 60 * 1000)\<rparr>;
                    st1 = st\<lparr>referrals := referrals st @ [referral],
                             r_nextId := Suc (r_nextId st)\<rparr>;
                    referralCode' = referralCode\<lparr>rc_usageCount := rc_usageCount referralCode + 1\<rparr>;
                    st2 = st1\<lparr>referralCodes := saveReferralCode referralCode' (referralCodes st1)\<rparr>
                in Inr (referral, st2)))"

text \<open>The insert of a ReferralCommission. The column \<open>orderId\<close> of
  \<open>referral_commissions\<close> is a \<open>uuid\<close>, not null, with a foreign key to \<open>orders\<close>;
  the empty string is no uuid, and the database rejects the insert with a query error.\<close>

definition saveReferralCommission ::
  "referral_store \<Rightarrow> ReferralCommission \<Rightarrow> error + referral_store" where
  "saveReferralCommission st commission =
     (if rcm_orderId commission = []
      then Inl (Error ''QueryFailedError: invalid input syntax for type uuid'')
      else Inr (st\<lparr>referralCommissions := referralCommissions st @ [commission],
                  r_nextId := Suc (r_nextId st)\<rparr>))"

text \<open>\<open>processSellerReferralCommission\<close> returns nothing; its result is the store it
  leaves, or the error of the rejected insert.\<close>

definition processSellerReferralCommission ::
  "referral_store \<Rightarrow> uuid \<Rightarrow> error + referral_store" where
  "processSellerReferralCommission st sellerId =
     (case find (\<lambda>r. r_sellerId r = Some sellerId \<and> r_type r = SELLER_ACCOUNT \<and> r_status r = R_ACTIVE)
             (referrals st) of
        None \<Rightarrow> Inr st
      | Some referral \<Rightarrow>
          (case sellers st sellerId of
             None \<Rightarrow> Inr st
           | Some seller \<Rightarrow>
               if js_le (s_totalRevenue seller) (Fin 0) then Inr st
               else let
                   commissionAmount =
                     js_div (js_mul (s_totalRevenue seller) (r_commissionRate referral)) (Fin 100);
                   commission =
                     \<lparr>rcm_id = show_nat (r_nextId st), rcm_referralId = r_id referral,
                      rcm_orderId = [], rcm_orderAmount = s_totalRevenue seller,
                      rcm_commissionRate = r_commissionRate referral,
                      rcm_commissionAmount = commissionAmount, rcm_status = RC_EARNED\<rparr>
                 in (case saveReferralCommission st commission of
                       Inl e \<Rightarrow> Inl e
                     | Inr st1 \<Rightarrow>
                         let referral' = referral\<lparr>r_totalCommission :=
                               js_add (r_totalCommission referral) commissionAmount\<rparr>
                         in Inr (st1\<lparr>referrals := saveReferral referral' (referrals st1)\<rparr>))))"

section \<open>Auxiliary notions for the statements\<close>









text \<open>What a successful \<open>updateOrderStatus\<close> writes: the order as mutated, the history
  row, and the store holding both.\<close>

definition historyRow :: "uuid \<Rightarrow> ORDER_STATUS \<Rightarrow> ORDER_STATUS \<Rightarrow> string option \<Rightarrow> OrderStatusHistory" where
  "historyRow orderId previousStatus status notes =
     \<lparr>h_orderId = orderId, h_status = status, h_previousStatus = previousStatus,
      h_notes = (if truthy notes then the notes else ''Status updated to '' @ status_string status),
      h_notificationSent = True\<rparr>"

definition updatedOrder :: "Order \<Rightarrow> SellerOrderUpdateDto \<Rightarrow> Order" where
  "updatedOrder order dto =
     order\<lparr>o_status := u_status dto,
        o_trackingNumber := (if truthy (u_trackingNumber dto) then u_trackingNumber dto
                             else o_trackingNumber order),
        o_estimatedDeliveryDate := (if truthy (u_estimatedDeliveryDate dto)
                             then u_estimatedDeliveryDate dto else o_estimatedDeliveryDate order),
        o_notes := (if truthy (u_notes dto) then u_notes dto else o_notes order)\<rparr>"

definition persisted :: "store \<Rightarrow> Order \<Rightarrow> SellerOrderUpdateDto \<Rightarrow> store" where
  "persisted st order dto =
     st\<lparr>orders := (orders st)(u_orderId dto \<mapsto> updatedOrder order dto),
        statusHistory := statusHistory st @
          [historyRow (u_orderId dto) (o_status order) (u_status dto) (u_notes dto)]\<rparr>"

text \<open>The caller is authenticated and the order has an item of one of its products.\<close>

definition passes :: "store \<Rightarrow> uuid option \<Rightarrow> uuid \<Rightarrow> bool" where
  "passes st user orderId \<longleftrightarrow> truthy user \<and> sellerOrderItems st orderId (the user) \<noteq> []"

section \<open>Example data\<close>

text \<open>An order with one line of seller A (quantity 2 at unit price 10) and one line of
  seller B (quantity 1 at unit price 30).\<close>

definition order_o1 :: "ORDER_STATUS \<Rightarrow> Order" where
  "order_o1 status =
     \<lparr>o_orderNumber = ''ORD-1'', o_status = status, o_totalAmount = 50,
      o_trackingNumber = None, o_estimatedDeliveryDate = None, o_notes = None\<rparr>"

definition item_A :: OrderItem where
  "item_A = \<lparr>oi_orderId = ''o1'', oi_productId = ''pA'', oi_quantity = 2, oi_unitPrice = 10,
      oi_totalPrice = 20, oi_product = Some \<lparr>p_sellerId = Some ''A''\<rparr>\<rparr>"

definition item_B :: OrderItem where
  "item_B = \<lparr>oi_orderId = ''o1'', oi_productId = ''pB'', oi_quantity = 1, oi_unitPrice = 30,
      oi_totalPrice = 30, oi_product = Some \<lparr>p_sellerId = Some ''B''\<rparr>\<rparr>"

definition example_store :: "ORDER_STATUS \<Rightarrow> store" where
  "example_store status =
     \<lparr>orders = [''o1'' \<mapsto> order_o1 status], items = [item_A, item_B], statusHistory = [],
      commissions = [], notifications = [], nextId = 0, console = []\<rparr>"

text \<open>A store in which seller A has an item whose order row is missing.\<close>

definition orphan_store :: store where
  "orphan_store = (example_store PENDING)\<lparr>orders := Map.empty\<rparr>"

definition accept_o1 :: SellerOrderAcceptDto where
  "accept_o1 = \<lparr>a_orderId = ''o1'', a_notes = None, a_estimatedProcessingTime = None\<rparr>"

definition accept_o2 :: SellerOrderAcceptDto where
  "accept_o2 = \<lparr>a_orderId = ''o2'', a_notes = None, a_estimatedProcessingTime = None\<rparr>"

definition update_o1 :: "ORDER_STATUS \<Rightarrow> SellerOrderUpdateDto" where
  "update_o1 status = \<lparr>u_orderId = ''o1'', u_status = status, u_notes = None,
      u_trackingNumber = None, u_estimatedDeliveryDate = None\<rparr>"

text \<open>A commission service that always throws.\<close>

definition failingCommissionService :: "store \<Rightarrow> uuid \<Rightarrow> error + Commission list \<times> store" where
  "failingCommissionService st orderId = Inl (Error ''database unavailable'')"

section \<open>Auxiliary notions for the commission statements\<close>

text \<open>The sellers represented in an order: the seller of the product of each item, for
  the items that have a product with a seller.\<close>

definition itemSeller :: "OrderItem \<Rightarrow> uuid option" where
  "itemSeller item =
     (case oi_product item of None \<Rightarrow> None
      | Some p \<Rightarrow> if truthy (p_sellerId p) then p_sellerId p else None)"

definition orderSellers :: "store \<Rightarrow> uuid \<Rightarrow> uuid list" where
  "orderSellers st orderId = List.map_filter itemSeller (orderItems st orderId)"

text \<open>The non-cancelled commission rows of an order and a seller.\<close>

definition rowsFor :: "store \<Rightarrow> uuid \<Rightarrow> uuid \<Rightarrow> Commission list" where
  "rowsFor st orderId sellerId =
     filter (\<lambda>c. c_orderId c = orderId \<and> c_sellerId c = sellerId \<and> c_status c \<noteq> C_CANCELLED)
       (commissions st)"

text \<open>Invoking the commission computation \<open>n\<close> times in a row.\<close>

fun repeatCommission :: "nat \<Rightarrow> store \<Rightarrow> uuid \<Rightarrow> store" where
  "repeatCommission 0 st orderId = st"
| "repeatCommission (Suc n) st orderId =
     (case calculateAndCreateCommission st orderId of
        Inl e \<Rightarrow> st
      | Inr (created, st') \<Rightarrow> repeatCommission n st' orderId)"

text \<open>The rows an invocation returns (none when it throws).\<close>

definition createdRows :: "error + Commission list \<times> store \<Rightarrow> Commission list" where
  "createdRows result = (case result of Inl e \<Rightarrow> [] | Inr (created, st') \<Rightarrow> created)"


text \<open>A commission table with a cancelled row, a paid row and a calculated row.\<close>

definition commission_c1 :: Commission where
  "commission_c1 =
     \<lparr>c_id = ''c1'', c_orderId = ''o1'', c_sellerId = ''A'', c_orderAmount = Fin 50,
      c_commissionRate = Fin 10, c_commissionAmount = Fin 0, c_status = C_CANCELLED,
      c_notes = [], c_paidAt = None\<rparr>"

definition commission_c2 :: Commission where
  "commission_c2 =
     \<lparr>c_id = ''c2'', c_orderId = ''o1'', c_sellerId = ''B'', c_orderAmount = Fin 50,
      c_commissionRate = Fin 10, c_commissionAmount = Fin 3, c_status = C_PAID,
      c_notes = [], c_paidAt = Some 1000\<rparr>"

definition commission_c3 :: Commission where
  "commission_c3 =
     \<lparr>c_id = ''c3'', c_orderId = ''o3'', c_sellerId = ''B'', c_orderAmount = Fin 20,
      c_commissionRate = Fin 10, c_commissionAmount = Fin 2, c_status = C_CALCULATED,
      c_notes = [], c_paidAt = None\<rparr>"

definition commission_store :: store where
  "commission_store =
     (example_store DELIVERED)\<lparr>commissions := [commission_c1, commission_c2, commission_c3]\<rparr>"

section \<open>Auxiliary notions for the referral statements\<close>

text \<open>The referral code that passes the validation of \<open>createReferral\<close>: active,
  not expired, under its usage cap.\<close>

definition usableCode :: "referral_store \<Rightarrow> string \<Rightarrow> int \<Rightarrow> ReferralCode option" where
  "usableCode st code now =
     (case find (\<lambda>c. rc_code c = code \<and> rc_isActive c) (referralCodes st) of
        None \<Rightarrow> None
      | Some c \<Rightarrow>
          if (case rc_expiresAt c of None \<Rightarrow> False | Some e \<Rightarrow> e < now) then None
          else if (case rc_maxUsage c of None \<Rightarrow> False | Some m \<Rightarrow> m \<noteq> 0 \<and> m \<le> rc_usageCount c)
          then None
          else Some c)"

text \<open>The error of that validation, when the code does not pass.\<close>

definition codeError :: "referral_store \<Rightarrow> string \<Rightarrow> int \<Rightarrow> error option" where
  "codeError st code now =
     (case find (\<lambda>c. rc_code c = code \<and> rc_isActive c) (referralCodes st) of
        None \<Rightarrow> Some (Error ''Invalid or inactive referral code'')
      | Some c \<Rightarrow>
          if (case rc_expiresAt c of None \<Rightarrow> False | Some e \<Rightarrow> e < now)
          then Some (Error ''Referral code has expired'')
          else if (case rc_maxUsage c of None \<Rightarrow> False | Some m \<Rightarrow> m \<noteq> 0 \<and> m \<le> rc_usageCount c)
          then Some (Error ''Referral code usage limit reached'')
          else None)"

text \<open>A referral exists for a referred user and a type.\<close>

definition referred :: "referral_store \<Rightarrow> uuid \<Rightarrow> REFERRAL_TYPE \<Rightarrow> bool" where
  "referred st referredId type \<longleftrightarrow>
     find (\<lambda>r. r_referredId r = referredId \<and> r_type r = type) (referrals st) \<noteq> None"

text \<open>At most one referral for each pair of a referred user and a type.\<close>

definition uniqueReferrals :: "referral_store \<Rightarrow> bool" where
  "uniqueReferrals st \<longleftrightarrow> distinct (map (\<lambda>r. (r_referredId r, r_type r)) (referrals st))"

text \<open>Example data: an active code of user u1, a code that expired at time 500, a pending
  referral of user u2, and an active seller-account referral at rate 10 for seller s1, whose
  revenue is 1000.\<close>

definition code_ok :: ReferralCode where
  "code_ok = \<lparr>rc_id = ''k1'', rc_code = ''ABCD1234'', rc_type = SELLER_ACCOUNT,
      rc_commissionRate = Fin 10, rc_isActive = True, rc_expiresAt = None,
      rc_usageCount = 0, rc_maxUsage = Some 5\<rparr>"

definition code_expired :: ReferralCode where
  "code_expired = \<lparr>rc_id = ''k2'', rc_code = ''EXPIRED1'', rc_type = SELLER_ACCOUNT,
      rc_commissionRate = Fin 10, rc_isActive = True, rc_expiresAt = Some 500,
      rc_usageCount = 0, rc_maxUsage = None\<rparr>"

definition referral_u2 :: Referral where
  "referral_u2 = \<lparr>r_id = ''r1'', r_referrerId = ''u1'', r_referredId = ''u2'',
      r_type = SELLER_ACCOUNT, r_status = R_PENDING, r_referralCode = Some ''ABCD1234'',
      r_productId = None, r_sellerId = None, r_commissionRate = Fin 10,
      r_totalCommission = Fin 0, r_expiresAt = Some 5000\<rparr>"

definition referral_s1 :: Referral where
  "referral_s1 = \<lparr>r_id = ''r2'', r_referrerId = ''u1'', r_referredId = ''u3'',
      r_type = SELLER_ACCOUNT, r_status = R_ACTIVE, r_referralCode = Some ''ABCD1234'',
      r_productId = None, r_sellerId = Some ''s1'', r_commissionRate = Fin 10,
      r_totalCommission = Fin 0, r_expiresAt = Some 5000\<rparr>"

definition referral_example :: referral_store where
  "referral_example =
     \<lparr>referralCodes = [code_ok, code_expired], referrals = [referral_u2, referral_s1],
      referralCommissions = [], sellers = [''s1'' \<mapsto> \<lparr>s_totalRevenue = Fin 1000\<rparr>],
      r_nextId = 0\<rparr>"

definition dto_new :: "uuid \<Rightarrow> string \<Rightarrow> CreateReferralDto" where
  "dto_new referredId code =
     \<lparr>d_referrerId = ''u1'', d_referredId = referredId, d_type = SELLER_ACCOUNT,
      d_referralCode = code, d_productId = None, d_sellerId = None, d_commissionRate = None\<rparr>"

text \<open>The referral that \<open>createReferral\<close> writes for user u9 with the active code when
  \<open>Date.now()\<close> is 1000, and the store it leaves.\<close>

definition referral_u9 :: Referral where
  "referral_u9 = \<lparr>r_id = ''0'', r_referrerId = ''u1'', r_referredId = ''u9'',
      r_type = SELLER_ACCOUNT, r_status = R_PENDING, r_referralCode = Some ''ABCD1234'',
      r_productId = None, r_sellerId = None, r_commissionRate = Fin 10,
      r_totalCommission = Fin 0, r_expiresAt = Some 2592001000\<rparr>"

definition referral_after :: referral_store where
  "referral_after =
     referral_example\<lparr>referrals := [referral_u2, referral_s1, referral_u9],
        r_nextId := Suc 0,
        referralCodes := [code_ok\<lparr>rc_usageCount := 1\<rparr>, code_expired]\<rparr>"

section \<open>The order lifecycle\<close>






lemma update_accept:
  assumes "passes st user (u_orderId dto)" and "orders st (u_orderId dto) = Some order"
    and "isValidStatusTransition (o_status order) (u_status dto)"
  shows "updateOrderStatus_with cs st user dto =
     (Json200 (updatedOrder order dto),
      if u_status dto = DELIVERED
      then (case cs (persisted st order dto) (u_orderId dto) of
              Inr (created, st') \<Rightarrow> st'
            | Inl (Error msg) \<Rightarrow> (persisted st order dto)\<lparr>console :=
                 console st @ [''Failed to calculate commission: '' @ msg]\<rparr>)
      else persisted st order dto)"
proof -
  have t: "truthy user" and it: "sellerOrderItems st (u_orderId dto) (the user) \<noteq> []"
    using assms(1) by (simp_all add: passes_def)
  have up: "updatedOrder order dto =
      (let order1 = order\<lparr>o_status := u_status dto\<rparr>;
           order2 = (if truthy (u_trackingNumber dto)
                            then order1\<lparr>o_trackingNumber := u_trackingNumber dto\<rparr> else order1);
           order3 = (if truthy (u_estimatedDeliveryDate dto)
                            then order2\<lparr>o_estimatedDeliveryDate := u_estimatedDeliveryDate dto\<rparr>
                            else order2)
       in (if truthy (u_notes dto) then order3\<lparr>o_notes := u_notes dto\<rparr> else order3))"
    by (simp add: updatedOrder_def Let_def)
  show ?thesis
    unfolding updateOrderStatus_with_def
    apply (simp only: t it assms(2) assms(3) not_True_eq_False if_False not_False_eq_True
        option.case Let_def up[unfolded Let_def, symmetric])
    apply (simp only: persisted_def historyRow_def store.simps)
    apply (cases "u_status dto = DELIVERED")
     apply (simp_all split: sum.splits error.splits prod.splits)
    done
qed


lemma persisted_history:
  "statusHistory (persisted st order dto) = statusHistory st @
     [historyRow (u_orderId dto) (o_status order) (u_status dto) (u_notes dto)]"
  by (simp add: persisted_def)


lemma accept_denied:
  "truthy user \<Longrightarrow> sellerOrderItems st (a_orderId dto) (the user) = [] \<Longrightarrow>
     acceptOrder st user dto = (Status 403 ''Access denied to this order'', st)"
  by (simp add: acceptOrder_def Let_def)

lemma accept_absent:
  "passes st user (a_orderId dto) \<Longrightarrow> orders st (a_orderId dto) = None \<Longrightarrow>
     acceptOrder st user dto = (Status 404 ''Order not found'', st)"
  by (simp add: acceptOrder_def Let_def passes_def)

lemma accept_wrong_status:
  "passes st user (a_orderId dto) \<Longrightarrow> orders st (a_orderId dto) = Some order \<Longrightarrow>
   o_status order \<noteq> SELLER_NOTIFIED \<Longrightarrow>
     acceptOrder st user dto = (Status 400 ''Order cannot be accepted in current status'', st)"
  by (simp add: acceptOrder_def Let_def passes_def)


lemma example_passes: "passes (example_store status) (Some ''A'') ''o1''"
  by (simp add: passes_def truthy_def sellerOrderItems_def example_store_def item_A_def)

lemma example_order: "orders (example_store status) ''o1'' = Some (order_o1 status)"
  by (simp add: example_store_def)

lemma example_stranger: "sellerOrderItems (example_store status) ''o1'' ''C'' = []"
  by (simp add: sellerOrderItems_def example_store_def item_A_def item_B_def)

lemma orphan_passes: "passes orphan_store (Some ''A'') ''o1''"
  by (simp add: passes_def truthy_def sellerOrderItems_def orphan_store_def example_store_def
      item_A_def)




text \<open>The second loop throws unless the map is empty, and never saves.\<close>

lemma saveCommissions_cases:
  "saveCommissions st orderId order m created =
     (if m = [] then Inr (created, st)
      else Inl (Error ''TypeError: Cannot read properties of undefined (reading CALCULATED)''))"
proof (cases m)
  case Nil
  then show ?thesis by simp
next
  case (Cons a rest)
  then show ?thesis by (cases a) (simp add: COMMISSION_STATUS_member_def)
qed

lemma calc_never_writes:
  "calculateAndCreateCommission st orderId = Inr (created, st') \<Longrightarrow> created = [] \<and> st' = st"
  unfolding calculateAndCreateCommission_def saveCommissions_cases
  by (auto split: option.splits if_splits)


















text \<open>
  C4. \<open>acceptOrder\<close> checks in this order and changes nothing when a check
  fails: it answers 403 (access denied) when no item of the order has a product of the
  calling seller, whether or not the order exists; otherwise 404 (not found) when the
  order is absent; otherwise 400 (invalid state) when the order's status is not
  \<open>seller_notified\<close>. In particular, for a seller with an item in the order, accepting a
  \<open>confirmed\<close> order answers 400, appends no history row and leaves the order unchanged.
\<close>

theorem acceptOrder_failures:
  "(truthy user \<and> sellerOrderItems st (a_orderId dto) (the user) = [] \<longrightarrow>
      acceptOrder st user dto = (Status 403 ''Access denied to this order'', st))
   \<and> (passes st user (a_orderId dto) \<and> orders st (a_orderId dto) = None \<longrightarrow>
      acceptOrder st user dto = (Status 404 ''Order not found'', st))
   \<and> (passes st user (a_orderId dto) \<and> orders st (a_orderId dto) = Some order \<and>
        o_status order \<noteq> SELLER_NOTIFIED \<longrightarrow>
      acceptOrder st user dto = (Status 400 ''Order cannot be accepted in current status'', st))
   \<and> (passes st user (a_orderId dto) \<and> orders st (a_orderId dto) = Some order \<and>
        o_status order = CONFIRMED \<longrightarrow>
      fst (acceptOrder st user dto) = Status 400 ''Order cannot be accepted in current status''
      \<and> statusHistory (snd (acceptOrder st user dto)) = statusHistory st
      \<and> orders (snd (acceptOrder st user dto)) = orders st)"
  by (simp add: accept_denied accept_absent accept_wrong_status)

theorem acceptOrder_failures_witness:
  "truthy (Some ''C'') \<and> sellerOrderItems (example_store SELLER_NOTIFIED) ''o1'' ''C'' = []
   \<and> acceptOrder (example_store SELLER_NOTIFIED) (Some ''C'') accept_o1 =
        (Status 403 ''Access denied to this order'', example_store SELLER_NOTIFIED)
   \<and> passes orphan_store (Some ''A'') ''o1'' \<and> orders orphan_store ''o1'' = None
   \<and> acceptOrder orphan_store (Some ''A'') accept_o1 = (Status 404 ''Order not found'', orphan_store)
   \<and> passes (example_store CONFIRMED) (Some ''A'') ''o1''
   \<and> orders (example_store CONFIRMED) ''o1'' = Some (order_o1 CONFIRMED)
   \<and> o_status (order_o1 CONFIRMED) = CONFIRMED
   \<and> acceptOrder (example_store CONFIRMED) (Some ''A'') accept_o1 =
        (Status 400 ''Order cannot be accepted in current status'', example_store CONFIRMED)
   \<and> statusHistory (snd (acceptOrder (example_store CONFIRMED) (Some ''A'') accept_o1)) = []
   \<and> orders (snd (acceptOrder (example_store CONFIRMED) (Some ''A'') accept_o1)) ''o1'' =
        Some (order_o1 CONFIRMED)"
proof -
  have a: "truthy (Some ''C'')" by (simp add: truthy_def)
  have b: "sellerOrderItems (example_store SELLER_NOTIFIED) ''o1'' ''C'' = []"
    by (rule example_stranger)
  have c: "passes orphan_store (Some ''A'') ''o1''" by (rule orphan_passes)
  have d: "orders orphan_store ''o1'' = None" by (simp add: orphan_store_def)
  have e: "passes (example_store CONFIRMED) (Some ''A'') ''o1''" by (rule example_passes)
  have f: "orders (example_store CONFIRMED) ''o1'' = Some (order_o1 CONFIRMED)"
    by (rule example_order)
  have g: "o_status (order_o1 CONFIRMED) = CONFIRMED" by (simp add: order_o1_def)
  have h: "statusHistory (example_store CONFIRMED) = []" by (simp add: example_store_def)
  have i: "a_orderId accept_o1 = ''o1''" by (simp add: accept_o1_def)
  show ?thesis
    using acceptOrder_failures [of "Some ''C''" "example_store SELLER_NOTIFIED" accept_o1 undefined]
      acceptOrder_failures [of "Some ''A''" orphan_store accept_o1 undefined]
      acceptOrder_failures [of "Some ''A''" "example_store CONFIRMED" accept_o1 "order_o1 CONFIRMED"]
      a b c d e f g h
    by (simp add: i)
qed

theorem acceptOrder_absent_order_counterexample:
  "orders (example_store SELLER_NOTIFIED) (a_orderId accept_o2) = None
   \<and> acceptOrder (example_store SELLER_NOTIFIED) (Some ''A'') accept_o2 =
        (Status 403 ''Access denied to this order'', example_store SELLER_NOTIFIED)
   \<and> fst (acceptOrder (example_store SELLER_NOTIFIED) (Some ''A'') accept_o2) \<noteq>
        Status 404 ''Order not found''"
proof -
  have "acceptOrder (example_store SELLER_NOTIFIED) (Some ''A'') accept_o2 =
        (Status 403 ''Access denied to this order'', example_store SELLER_NOTIFIED)"
    by (rule accept_denied)
       (simp_all add: truthy_def accept_o2_def sellerOrderItems_def example_store_def
          item_A_def item_B_def)
  then show ?thesis by (simp add: example_store_def accept_o2_def)
qed

text \<open>
  C8. When \<open>updateOrderStatus\<close> moves an order to \<open>delivered\<close> and the commission
  computation it triggers throws, the throw is caught and printed, not propagated: the
  answer is still 200 with the updated order, and the store holds the order with its new
  status and the new history row.
\<close>

theorem commission_failure_not_propagated:
  assumes "passes st user (u_orderId dto)"
    and "orders st (u_orderId dto) = Some order"
    and "isValidStatusTransition (o_status order) (u_status dto)"
    and "u_status dto = DELIVERED"
    and "commissionService (persisted st order dto) (u_orderId dto) = Inl (Error msg)"
  shows "fst (updateOrderStatus_with commissionService st user dto) =
           Json200 (updatedOrder order dto)
     \<and> o_status (updatedOrder order dto) = DELIVERED
     \<and> orders (snd (updateOrderStatus_with commissionService st user dto)) (u_orderId dto) =
           Some (updatedOrder order dto)
     \<and> statusHistory (snd (updateOrderStatus_with commissionService st user dto)) =
           statusHistory st @ [historyRow (u_orderId dto) (o_status order) DELIVERED (u_notes dto)]
     \<and> console (snd (updateOrderStatus_with commissionService st user dto)) =
           console st @ [''Failed to calculate commission: '' @ msg]"
  using assms(4,5)
  by (simp add: update_accept [OF assms(1,2,3)] persisted_def updatedOrder_def)

theorem commission_failure_not_propagated_witness:
  "passes (example_store SHIPPED) (Some ''A'') ''o1''
   \<and> orders (example_store SHIPPED) ''o1'' = Some (order_o1 SHIPPED)
   \<and> isValidStatusTransition SHIPPED DELIVERED
   \<and> failingCommissionService (persisted (example_store SHIPPED) (order_o1 SHIPPED)
         (update_o1 DELIVERED)) ''o1'' = Inl (Error ''database unavailable'')
   \<and> fst (updateOrderStatus_with failingCommissionService (example_store SHIPPED) (Some ''A'')
         (update_o1 DELIVERED)) = Json200 (order_o1 DELIVERED)
   \<and> orders (snd (updateOrderStatus_with failingCommissionService (example_store SHIPPED)
         (Some ''A'') (update_o1 DELIVERED))) ''o1'' = Some (order_o1 DELIVERED)
   \<and> map (\<lambda>h. (h_orderId h, h_previousStatus h, h_status h))
        (statusHistory (snd (updateOrderStatus_with failingCommissionService
           (example_store SHIPPED) (Some ''A'') (update_o1 DELIVERED)))) =
        [(''o1'', SHIPPED, DELIVERED)]
   \<and> console (snd (updateOrderStatus_with failingCommissionService (example_store SHIPPED)
         (Some ''A'') (update_o1 DELIVERED))) =
        [''Failed to calculate commission: database unavailable'']"
proof -
  have a: "passes (example_store SHIPPED) (Some ''A'') (u_orderId (update_o1 DELIVERED))"
    using example_passes by (simp add: update_o1_def)
  have b: "orders (example_store SHIPPED) (u_orderId (update_o1 DELIVERED)) =
      Some (order_o1 SHIPPED)"
    using example_order by (simp add: update_o1_def)
  have c: "isValidStatusTransition (o_status (order_o1 SHIPPED)) (u_status (update_o1 DELIVERED))"
    by (simp add: isValidStatusTransition_def order_o1_def update_o1_def)
  have d: "u_status (update_o1 DELIVERED) = DELIVERED" by (simp add: update_o1_def)
  have e: "failingCommissionService (persisted (example_store SHIPPED) (order_o1 SHIPPED)
         (update_o1 DELIVERED)) (u_orderId (update_o1 DELIVERED)) =
         Inl (Error ''database unavailable'')"
    by (simp add: failingCommissionService_def)
  have u: "updatedOrder (order_o1 SHIPPED) (update_o1 DELIVERED) = order_o1 DELIVERED"
    by (simp add: updatedOrder_def order_o1_def update_o1_def truthy_def)
  have h: "statusHistory (example_store SHIPPED) = []" "console (example_store SHIPPED) = []"
    by (simp_all add: example_store_def)
  have o: "u_orderId (update_o1 DELIVERED) = ''o1''" "u_notes (update_o1 DELIVERED) = None"
    "o_status (order_o1 SHIPPED) = SHIPPED"
    by (simp_all add: update_o1_def order_o1_def)
  show ?thesis
    using commission_failure_not_propagated
      [where commissionService = failingCommissionService, OF a b c d e] a b c e
    unfolding u o h by (simp add: historyRow_def d)
qed

section \<open>The commission engine\<close>

lemma repeat_unchanged: "repeatCommission n st orderId = st"
proof (induction n)
  case 0
  show ?case by simp
next
  case (Suc n)
  show ?case
  proof (cases "calculateAndCreateCommission st orderId")
    case (Inl e)
    then show ?thesis by simp
  next
    case (Inr r)
    obtain created st' where r: "r = (created, st')" by (cases r)
    from calc_never_writes [OF Inr [unfolded r]] Suc show ?thesis by (simp add: Inr r)
  qed
qed

lemma created_none: "createdRows (calculateAndCreateCommission st orderId) = []"
proof (cases "calculateAndCreateCommission st orderId")
  case (Inl e)
  then show ?thesis by (simp add: createdRows_def)
next
  case (Inr r)
  obtain created st' where r: "r = (created, st')" by (cases r)
  from calc_never_writes [OF Inr [unfolded r]] show ?thesis by (simp add: createdRows_def Inr r)
qed

lemma example_sellers: "orderSellers (example_store status) ''o1'' = [''A'', ''B'']"
  by (simp add: orderSellers_def orderItems_def example_store_def item_A_def item_B_def
      map_filter_simps itemSeller_def truthy_def)

lemma example_group:
  "groupBySeller (orderItems (example_store DELIVERED) ''o1'') [] =
     [(''A'', \<lparr>cd_amount = NaN, cd_rate = Fin 10\<rparr>), (''B'', \<lparr>cd_amount = NaN, cd_rate = Fin 10\<rparr>)]"
  by (simp add: orderItems_def example_store_def item_A_def item_B_def truthy_def
      oi_price_def getCommissionRate_def Let_def groupBySeller.simps)

lemma example_throws:
  "calculateAndCreateCommission (example_store DELIVERED) ''o1'' =
     Inl (Error ''TypeError: Cannot read properties of undefined (reading CALCULATED)'')"
  unfolding calculateAndCreateCommission_def example_order example_group saveCommissions_cases
  by (simp add: order_o1_def)

text \<open>
  C2. On the delivered order with items of sellers A and B, \<open>calculateAndCreateCommission\<close>
  throws a \<open>TypeError\<close> while it builds the first row and saves nothing: however often it
  is invoked, the order has no Commission row for seller A or seller B, where one
  non-cancelled row for each is expected. No invocation on any store ever writes a row.
\<close>

theorem commission_never_persisted:
  "repeatCommission n st orderId = st
   \<and> orderSellers (example_store DELIVERED) ''o1'' = [''A'', ''B'']
   \<and> calculateAndCreateCommission (example_store DELIVERED) ''o1'' =
        Inl (Error ''TypeError: Cannot read properties of undefined (reading CALCULATED)'')
   \<and> rowsFor (repeatCommission n (example_store DELIVERED) ''o1'') ''o1'' ''A'' = []
   \<and> rowsFor (repeatCommission n (example_store DELIVERED) ''o1'') ''o1'' ''B'' = []"
proof -
  have "rowsFor (example_store DELIVERED) ''o1'' sellerId = []" for sellerId
    by (simp add: rowsFor_def example_store_def)
  then show ?thesis by (simp add: repeat_unchanged example_sellers example_throws)
qed

text \<open>
  C3. For the delivered order with a line of seller A (quantity 2, unit price 10) and a
  line of seller B (quantity 1, unit price 30), the first loop groups the items by seller
  at rate 10, but with the amount \<open>NaN\<close> for both sellers instead of 2 and 3, because the
  item total is computed from \<open>item.price\<close>, which an order item does not have; the second
  loop then throws a \<open>TypeError\<close> on \<open>COMMISSION_STATUS.CALCULATED\<close>, so that no row is
  returned or persisted.
\<close>

theorem commission_scenario_throws:
  "groupBySeller (orderItems (example_store DELIVERED) ''o1'') [] =
     [(''A'', \<lparr>cd_amount = NaN, cd_rate = Fin 10\<rparr>), (''B'', \<lparr>cd_amount = NaN, cd_rate = Fin 10\<rparr>)]
   \<and> saveCommissions (example_store DELIVERED) ''o1'' (order_o1 DELIVERED)
        (groupBySeller (orderItems (example_store DELIVERED) ''o1'') []) [] =
        Inl (Error ''TypeError: Cannot read properties of undefined (reading CALCULATED)'')
   \<and> createdRows (calculateAndCreateCommission (example_store DELIVERED) ''o1'') = []"
  by (simp add: example_group saveCommissions_cases created_none)


text \<open>
  C5. \<open>markCommissionAsPaid\<close> takes no payout reference and has no check of the status;
  for every commission it finds it throws a \<open>TypeError\<close> on \<open>COMMISSION_STATUS.PAID\<close>
  before it changes the row. So the calculated commission c3 is not marked as paid, and
  the cancelled commission c1 fails with the same \<open>TypeError\<close>.
\<close>

theorem markCommissionAsPaid_throws:
  "c_status commission_c3 = C_CALCULATED
   \<and> markCommissionAsPaid commission_store ''c3'' 2000 =
       Inl (Error ''TypeError: Cannot read properties of undefined (reading PAID)'')
   \<and> c_status commission_c1 = C_CANCELLED
   \<and> markCommissionAsPaid commission_store ''c1'' 2000 =
       Inl (Error ''TypeError: Cannot read properties of undefined (reading PAID)'')
   \<and> markCommissionAsPaid commission_store ''c9'' 2000 = Inl (Error ''Commission not found'')"
  by (simp add: markCommissionAsPaid_def commission_store_def commission_c1_def
      commission_c2_def commission_c3_def COMMISSION_STATUS_member_def)

text \<open>
  C10. For seller B, who has a paid and a calculated commission, \<open>getCommissionSummary\<close>
  returns no sums: the first filter throws a \<open>TypeError\<close> on \<open>COMMISSION_STATUS.PAID\<close>.
  Only for a seller without any commission does it return, with every total 0.
\<close>

theorem commission_summary_throws:
  "map c_id (filter (\<lambda>c. c_sellerId c = ''B'') (commissions commission_store)) = [''c2'', ''c3'']
   \<and> getCommissionSummary commission_store ''B'' =
        Inl (Error ''TypeError: Cannot read properties of undefined (reading PAID)'')
   \<and> getCommissionSummary commission_store ''C'' =
        Inr \<lparr>totalEarned = Fin 0, totalPaid = Fin 0, pendingAmount = Fin 0,
             commissionCount = 0\<rparr>"
  by (simp add: getCommissionSummary_def commission_store_def commission_c1_def
      commission_c2_def commission_c3_def COMMISSION_STATUS_member_def sumAmounts_def Let_def)

section \<open>The referral program\<close>

lemma createReferral_invalid:
  "usableCode st (d_referralCode data) now = None \<Longrightarrow>
     \<exists>e. createReferral st data now dateNow = Inl e"
  unfolding usableCode_def createReferral_def
  by (auto split: option.splits if_splits)

lemma createReferral_duplicate:
  "usableCode st (d_referralCode data) now = Some code \<Longrightarrow>
   referred st (d_referredId data) (d_type data) \<Longrightarrow>
     createReferral st data now dateNow =
       Inl (Error ''User has already been referred for this type'')"
  unfolding usableCode_def createReferral_def referred_def
  by (auto split: option.splits if_splits)

lemma createReferral_created:
  assumes "usableCode st (d_referralCode data) now = Some code"
    and "\<not> referred st (d_referredId data) (d_type data)"
  shows "\<exists>referral. createReferral st data now dateNow =
      Inr (referral,
           st\<lparr>referrals := referrals st @ [referral], r_nextId := Suc (r_nextId st),
              referralCodes :=
                saveReferralCode (code\<lparr>rc_usageCount := rc_usageCount code + 1\<rparr>) (referralCodes st)\<rparr>)
    \<and> r_status referral = R_PENDING
    \<and> r_expiresAt referral = Some (dateNow + 30 * 24 * 60 * 60 * 1000)
    \<and> r_referredId referral = d_referredId data \<and> r_type referral = d_type data
    \<and> r_referrerId referral = d_referrerId data
    \<and> r_totalCommission referral = Fin 0"
proof -
  from assms(1) have f: "find (\<lambda>c. rc_code c = d_referralCode data \<and> rc_isActive c)
      (referralCodes st) = Some code"
    and e: "\<not> (case rc_expiresAt code of None \<Rightarrow> False | Some e \<Rightarrow> e < now)"
    and m: "\<not> (case rc_maxUsage code of None \<Rightarrow> False | Some m \<Rightarrow> m \<noteq> 0 \<and> m \<le> rc_usageCount code)"
    unfolding usableCode_def by (auto split: option.splits if_splits)
  from assms(2) have n: "find (\<lambda>r. r_referredId r = d_referredId data \<and> r_type r = d_type data)
      (referrals st) = None"
    by (simp add: referred_def)
  show ?thesis
    unfolding createReferral_def
    by (simp only: f e m n option.case if_False Let_def) simp
qed

lemma find_after_save:
  assumes "find P rows = Some code" and "P code'" and "rc_id code' = rc_id code"
  shows "find P (saveReferralCode code' rows) = Some code'"
  using assms(1)
proof (induction rows)
  case Nil
  then show ?case by simp
next
  case (Cons x rows)
  show ?case
  proof (cases "P x")
    case True
    with Cons.prems have "x = code" by simp
    then show ?thesis using assms(2,3) by (simp add: saveReferralCode_def)
  next
    case False
    with Cons.prems have "find P rows = Some code" by simp
    then have "find P (saveReferralCode code' rows) = Some code'" by (rule Cons.IH)
    then show ?thesis using False assms(2) by (simp add: saveReferralCode_def)
  qed
qed

lemma usableCode_found:
  "usableCode st code now = Some c \<Longrightarrow>
     find (\<lambda>c. rc_code c = code \<and> rc_isActive c) (referralCodes st) = Some c
     \<and> rc_code c = code \<and> rc_isActive c"
  unfolding usableCode_def
  by (auto split: option.splits if_splits dest: find_Some_iff [THEN iffD1])

lemma unique_append:
  assumes "uniqueReferrals st" and "\<not> referred st (r_referredId referral) (r_type referral)"
  shows "distinct (map (\<lambda>r. (r_referredId r, r_type r)) (referrals st @ [referral]))"
proof -
  from assms(2) have "\<forall>r\<in>set (referrals st).
      \<not> (r_referredId r = r_referredId referral \<and> r_type r = r_type referral)"
    by (simp add: referred_def find_None_iff)
  then have "(r_referredId referral, r_type referral) \<notin>
      set (map (\<lambda>r. (r_referredId r, r_type r)) (referrals st))"
    by auto
  with assms(1) show ?thesis by (simp add: uniqueReferrals_def)
qed

lemma createReferral_code_error:
  "usableCode st (d_referralCode data) now = None \<Longrightarrow>
     \<exists>e. codeError st (d_referralCode data) now = Some e \<and>
         createReferral st data now dateNow = Inl e"
  unfolding usableCode_def codeError_def createReferral_def
  by (auto split: option.splits if_splits)

text \<open>
  C6. A \<open>createReferral\<close> call when a Referral already exists for the pair
  of the referred user and the type always fails, before any write; the failure is the
  duplicate error when the referral code passes validation (active, not expired, under
  its cap), and the code's own error otherwise (invalid or inactive, expired, or usage
  limit reached). A successful call finds no Referral for
  the pair, appends one in status \<open>pending\<close> that expires 30 days after \<open>Date.now()\<close>,
  and leaves the code it used with its usage count incremented by one; so, starting from
  a table with at most one Referral per pair, the table keeps at most one per pair.
\<close>

theorem createReferral_once_per_pair:
  "(referred st (d_referredId data) (d_type data) \<longrightarrow>
       (\<exists>e. createReferral st data now dateNow = Inl e)
     \<and> (usableCode st (d_referralCode data) now \<noteq> None \<longrightarrow>
          createReferral st data now dateNow =
            Inl (Error ''User has already been referred for this type'')))
   \<and> (createReferral st data now dateNow = Inr (referral, st') \<longrightarrow>
        \<not> referred st (d_referredId data) (d_type data)
      \<and> r_status referral = R_PENDING
      \<and> r_expiresAt referral = Some (dateNow + 30 * 24 * 60 * 60 * 1000)
      \<and> r_referredId referral = d_referredId data \<and> r_type referral = d_type data
      \<and> referrals st' = referrals st @ [referral]
      \<and> (\<exists>code. usableCode st (d_referralCode data) now = Some code
            \<and> referralCodes st' =
                saveReferralCode (code\<lparr>rc_usageCount := rc_usageCount code + 1\<rparr>) (referralCodes st)
            \<and> find (\<lambda>c. rc_code c = d_referralCode data \<and> rc_isActive c) (referralCodes st') =
                Some (code\<lparr>rc_usageCount := rc_usageCount code + 1\<rparr>))
      \<and> (uniqueReferrals st \<longrightarrow> uniqueReferrals st'))
   \<and> (usableCode st (d_referralCode data) now = None \<longrightarrow>
        (\<exists>e. codeError st (d_referralCode data) now = Some e \<and>
           createReferral st data now dateNow = Inl e))"
proof (intro conjI impI)
  assume r: "referred st (d_referredId data) (d_type data)"
  show "\<exists>e. createReferral st data now dateNow = Inl e"
  proof (cases "usableCode st (d_referralCode data) now")
    case None
    then show ?thesis by (rule createReferral_invalid)
  next
    case (Some code)
    then show ?thesis using r by (simp add: createReferral_duplicate)
  qed
  assume "usableCode st (d_referralCode data) now \<noteq> None"
  then show "createReferral st data now dateNow =
      Inl (Error ''User has already been referred for this type'')"
    using r by (auto simp: createReferral_duplicate)
next
  assume ok: "createReferral st data now dateNow = Inr (referral, st')"
  obtain code where code: "usableCode st (d_referralCode data) now = Some code"
    using ok createReferral_invalid [of st data now dateNow]
    by (cases "usableCode st (d_referralCode data) now") auto
  have nr: "\<not> referred st (d_referredId data) (d_type data)"
    using ok createReferral_duplicate [OF code, of dateNow] by auto
  let ?code' = "code\<lparr>rc_usageCount := rc_usageCount code + 1\<rparr>"
  from createReferral_created [OF code nr, of dateNow] ok have
    st': "st' = st\<lparr>referrals := referrals st @ [referral], r_nextId := Suc (r_nextId st),
              referralCodes := saveReferralCode ?code' (referralCodes st)\<rparr>"
    and f: "r_status referral = R_PENDING"
      "r_expiresAt referral = Some (dateNow + 30 * 24 * 60 * 60 * 1000)"
      "r_referredId referral = d_referredId data" "r_type referral = d_type data"
    by auto
  show "\<not> referred st (d_referredId data) (d_type data)" by (rule nr)
  show "r_status referral = R_PENDING"
    and "r_expiresAt referral = Some (dateNow + 30 * 24 * 60 * 60 * 1000)"
    and "r_referredId referral = d_referredId data" and "r_type referral = d_type data"
    by (rule f)+
  show "referrals st' = referrals st @ [referral]" by (simp add: st')
  have "find (\<lambda>c. rc_code c = d_referralCode data \<and> rc_isActive c)
      (saveReferralCode ?code' (referralCodes st)) = Some ?code'"
    using usableCode_found [OF code] by (intro find_after_save [where code = code]) simp_all
  then show "\<exists>code. usableCode st (d_referralCode data) now = Some code
            \<and> referralCodes st' =
                saveReferralCode (code\<lparr>rc_usageCount := rc_usageCount code + 1\<rparr>) (referralCodes st)
            \<and> find (\<lambda>c. rc_code c = d_referralCode data \<and> rc_isActive c) (referralCodes st') =
                Some (code\<lparr>rc_usageCount := rc_usageCount code + 1\<rparr>)"
    using code by (simp add: st')
  assume u: "uniqueReferrals st"
  have "distinct (map (\<lambda>r. (r_referredId r, r_type r)) (referrals st @ [referral]))"
    using u nr by (intro unique_append) (simp_all add: f)
  then show "uniqueReferrals st'" by (simp add: uniqueReferrals_def st')
next
  assume "usableCode st (d_referralCode data) now = None"
  then show "\<exists>e. codeError st (d_referralCode data) now = Some e \<and>
           createReferral st data now dateNow = Inl e"
    by (rule createReferral_code_error)
qed

lemma example_usable:
  "usableCode referral_example ''ABCD1234'' 1000 = Some code_ok"
  "usableCode referral_example ''EXPIRED1'' 1000 = None"
  by (simp_all add: usableCode_def referral_example_def code_ok_def code_expired_def)

lemma example_referred:
  "referred referral_example ''u2'' SELLER_ACCOUNT"
  "\<not> referred referral_example ''u9'' SELLER_ACCOUNT"
  by (simp_all add: referred_def referral_example_def referral_u2_def referral_s1_def)

lemma show_nat_0: "show_nat 0 = ''0''"
  by (simp add: show_nat.simps digit_char_def)

lemma example_created:
  "createReferral referral_example (dto_new ''u9'' ''ABCD1234'') 1000 1000 =
     Inr (referral_u9, referral_after)"
  by (simp add: createReferral_def referral_example_def code_ok_def code_expired_def
      referral_u2_def referral_s1_def dto_new_def Let_def truthy_num_def show_nat_0
      saveReferralCode_def referral_u9_def referral_after_def)

theorem createReferral_once_per_pair_witness:
  "referred referral_example ''u2'' SELLER_ACCOUNT
   \<and> usableCode referral_example ''ABCD1234'' 1000 \<noteq> None
   \<and> createReferral referral_example (dto_new ''u2'' ''ABCD1234'') 1000 1000 =
        Inl (Error ''User has already been referred for this type'')
   \<and> createReferral referral_example (dto_new ''u9'' ''ABCD1234'') 1000 1000 =
        Inr (referral_u9, referral_after)
   \<and> uniqueReferrals referral_example
   \<and> r_status referral_u9 = R_PENDING
   \<and> r_expiresAt referral_u9 = Some (1000 + 30 * 24 * 60 * 60 * 1000)
   \<and> find (\<lambda>c. rc_code c = ''ABCD1234'' \<and> rc_isActive c) (referralCodes referral_after) =
        Some (code_ok\<lparr>rc_usageCount := rc_usageCount code_ok + 1\<rparr>)
   \<and> uniqueReferrals referral_after
   \<and> usableCode referral_example ''EXPIRED1'' 1000 = None
   \<and> codeError referral_example ''EXPIRED1'' 1000 = Some (Error ''Referral code has expired'')
   \<and> createReferral referral_example (dto_new ''u2'' ''EXPIRED1'') 1000 1000 =
        Inl (Error ''Referral code has expired'')"
proof -
  have a: "referred referral_example (d_referredId (dto_new ''u2'' ''ABCD1234''))
      (d_type (dto_new ''u2'' ''ABCD1234''))"
    using example_referred(1) by (simp add: dto_new_def)
  have b: "usableCode referral_example (d_referralCode (dto_new ''u2'' ''ABCD1234'')) 1000 \<noteq> None"
    "usableCode referral_example (d_referralCode (dto_new ''u9'' ''ABCD1234'')) 1000 = Some code_ok"
    using example_usable(1) by (simp_all add: dto_new_def)
  have c: "uniqueReferrals referral_example"
    by (simp add: uniqueReferrals_def referral_example_def referral_u2_def referral_s1_def)
  have d: "d_referralCode (dto_new ''u9'' ''ABCD1234'') = ''ABCD1234''"
    by (simp add: dto_new_def)
  have e: "d_referralCode (dto_new ''u2'' ''EXPIRED1'') = ''EXPIRED1''"
    by (simp add: dto_new_def)
  have f: "codeError referral_example ''EXPIRED1'' 1000 = Some (Error ''Referral code has expired'')"
    by (simp add: codeError_def referral_example_def code_ok_def code_expired_def)
  have g: "createReferral referral_example (dto_new ''u2'' ''EXPIRED1'') 1000 1000 =
        Inl (Error ''Referral code has expired'')"
    using createReferral_once_per_pair [of referral_example "dto_new ''u2'' ''EXPIRED1''" 1000 1000
        undefined undefined] example_usable(2) f
    unfolding e by auto
  show ?thesis
    using createReferral_once_per_pair [of referral_example "dto_new ''u2'' ''ABCD1234''" 1000 1000
        undefined undefined]
      createReferral_once_per_pair [of referral_example "dto_new ''u9'' ''ABCD1234''" 1000 1000
        referral_u9 referral_after]
      a b c example_created example_referred(1) example_usable f g
    unfolding d by auto
qed

theorem createReferral_expired_code_counterexample:
  "referred referral_example ''u2'' SELLER_ACCOUNT
   \<and> createReferral referral_example (dto_new ''u2'' ''EXPIRED1'') 1000 1000 =
        Inl (Error ''Referral code has expired'')"
proof -
  have "createReferral referral_example (dto_new ''u2'' ''EXPIRED1'') 1000 1000 =
        Inl (Error ''Referral code has expired'')"
    by (simp add: createReferral_def referral_example_def code_ok_def code_expired_def
        dto_new_def)
  with example_referred(1) show ?thesis by simp
qed

text \<open>
  C7. For seller s1 with revenue 1000 and an active seller-account referral at rate 10,
  \<open>processSellerReferralCommission\<close> computes the commission and then fails: it gives
  the ReferralCommission the order id \<open>""\<close>, which the \<open>uuid\<close> column with its foreign
  key to \<open>orders\<close> rejects, so the insert throws, no row of amount 100 is written and the
  referral's total stays 0. For a seller without an active referral it returns and leaves
  the store as it was.
\<close>

theorem seller_referral_commission_rejected:
  "find (\<lambda>r. r_sellerId r = Some ''s1'' \<and> r_type r = SELLER_ACCOUNT \<and> r_status r = R_ACTIVE)
     (referrals referral_example) = Some referral_s1
   \<and> r_commissionRate referral_s1 = Fin 10 \<and> r_totalCommission referral_s1 = Fin 0
   \<and> sellers referral_example ''s1'' = Some \<lparr>s_totalRevenue = Fin 1000\<rparr>
   \<and> js_div (js_mul (Fin 1000) (Fin 10)) (Fin 100) = Fin 100
   \<and> processSellerReferralCommission referral_example ''s1'' =
        Inl (Error ''QueryFailedError: invalid input syntax for type uuid'')
   \<and> processSellerReferralCommission referral_example ''s9'' = Inr referral_example"
  by (simp add: processSellerReferralCommission_def saveReferralCommission_def
      referral_example_def referral_u2_def referral_s1_def Let_def)

end
